theory Spec2Isabelle
  imports Complex_Main
begin

section \<open>The septagon case: face placement and the sliding tray\<close>

text \<open>
  The development follows \<^verbatim>\<open>src/components/Septagon3D.tsx\<close>. A JavaScript
  \<^verbatim>\<open>number\<close> is read as a real number: rounding, infinities and NaN are left out,
  so a statement made here is a statement about the arithmetic the code writes
  down. Division by zero is the one place where the two differ visibly
  (JavaScript gives an infinity, HOL gives \<open>0\<close>): the statements about the value
  of a face angle are made for a non-zero segment count, and in all others the
  face angle is only a direction, whatever the division yields.
\<close>

subsection \<open>Data\<close>

text \<open>The \<^verbatim>\<open>position\<close> of a mesh: a three.js vector with fields x, y, z.\<close>

record Vector3 =
  pos_x :: real
  pos_y :: real
  pos_z :: real

text \<open>
  The props of \<^verbatim>\<open>SideBox\<close> are \<^verbatim>\<open>{index, radius, height, segments}\<close>; the props
  of \<^verbatim>\<open>Tray\<close> are the same four fields and \<^verbatim>\<open>innerRadius\<close>.
\<close>

record SideBoxProps =
  index :: real
  radius :: real
  height :: real
  segments :: real

record TrayProps = SideBoxProps +
  innerRadius :: real

text \<open>
  What the \<^verbatim>\<open>Tray\<close> component keeps between frames: the React state
  \<^verbatim>\<open>isOpen\<close> and the mesh behind \<^verbatim>\<open>meshRef.current\<close> (absent until the mesh
  is mounted), of which only the position matters here.
\<close>

record TrayState =
  isOpen :: bool
  meshRef :: "Vector3 option"

text \<open>
  What a component hands to the renderer for its outer \<^verbatim>\<open><mesh>\<close>: the rotation
  about the vertical axis and the position. The tray's mesh has a
  \<^verbatim>\<open><boxGeometry>\<close> of its own as well; in \<^verbatim>\<open>SideBox\<close> the box geometry is a child
  of the nested \<^verbatim>\<open><group>\<close>, so the outer mesh carries none.
\<close>

record Object3D =
  rotation_y :: real
  position :: Vector3

record Mesh = Object3D +
  boxGeometry :: "real \<times> real \<times> real"

text \<open>
  The error taxonomy of the specification. The source file contains no
  \<^verbatim>\<open>throw\<close> statement, so no function below ever returns one of them.
\<close>

datatype error = ConfigurationError | RangeError | TimingError

subsection \<open>\<^verbatim>\<open>SideBox\<close>\<close>

definition SideBox_angleStep :: "'a SideBoxProps_scheme \<Rightarrow> real" where
  "SideBox_angleStep p = (pi * 2) / segments p"

definition SideBox_faceAngle :: "'a SideBoxProps_scheme \<Rightarrow> real" where
  "SideBox_faceAngle p = SideBox_angleStep p * (index p + 0.5)"

definition SideBox_dist :: "'a SideBoxProps_scheme \<Rightarrow> real" where
  "SideBox_dist p = radius p + 0.2"

definition SideBox_mesh :: "'a SideBoxProps_scheme \<Rightarrow> Object3D" where
  "SideBox_mesh p = \<lparr>
     rotation_y = - SideBox_faceAngle p,
     position = \<lparr>
       pos_x = cos (SideBox_faceAngle p) * SideBox_dist p,
       pos_y = height p / 2,
       pos_z = sin (SideBox_faceAngle p) * SideBox_dist p \<rparr> \<rparr>"

text \<open>
  Rendering the component: the body is arithmetic only, which in JavaScript
  never throws, so the outcome is always the mesh.
\<close>

definition SideBox :: "'a SideBoxProps_scheme \<Rightarrow> error + Object3D" where
  "SideBox p = Inr (SideBox_mesh p)"

subsection \<open>\<^verbatim>\<open>Tray\<close>: derived dimensions\<close>

definition angleStep :: "TrayProps \<Rightarrow> real" where
  "angleStep p = (pi * 2) / segments p"

definition faceAngle :: "TrayProps \<Rightarrow> real" where
  "faceAngle p = angleStep p * (index p + 0.5)"

text \<open>The constant \<^verbatim>\<open>length\<close> of the source (the name is taken by lists).\<close>

definition length_tray :: "TrayProps \<Rightarrow> real" where
  "length_tray p = radius p - innerRadius p - 0.4"

text \<open>
  The chord at \<^verbatim>\<open>innerRadius\<close>, the first summand of \<^verbatim>\<open>width\<close>:
  \<^verbatim>\<open>2 * innerRadius * Math.sin(angleStep / 2)\<close>.
\<close>

definition chord :: "TrayProps \<Rightarrow> real" where
  "chord p = 2 * innerRadius p * sin (angleStep p / 2)"

definition width :: "TrayProps \<Rightarrow> real" where
  "width p = chord p - 0.15"

definition trayHeight :: "TrayProps \<Rightarrow> real" where
  "trayHeight p = height p * 0.6"

definition startRadius :: "TrayProps \<Rightarrow> real" where
  "startRadius p = innerRadius p + (length_tray p / 2) + 0.1"

definition closedDist :: "TrayProps \<Rightarrow> real" where
  "closedDist p = startRadius p"

definition openDist :: "TrayProps \<Rightarrow> real" where
  "openDist p = closedDist p + 1.5"

text \<open>
  The mesh the component returns; its \<^verbatim>\<open>position\<close> prop is the initial
  position of the tray.
\<close>

definition Tray_mesh :: "TrayProps \<Rightarrow> Mesh" where
  "Tray_mesh p = \<lparr>
     rotation_y = - faceAngle p,
     position = \<lparr>
       pos_x = cos (faceAngle p) * closedDist p,
       pos_y = height p / 2,
       pos_z = sin (faceAngle p) * closedDist p \<rparr>,
     boxGeometry = (length_tray p, trayHeight p, width p) \<rparr>"

text \<open>Rendering the component: again arithmetic only, with no \<^verbatim>\<open>throw\<close>.\<close>

definition Tray :: "TrayProps \<Rightarrow> error + Mesh" where
  "Tray p = Inr (Tray_mesh p)"

text \<open>
  The state after the first render: \<^verbatim>\<open>useState(false)\<close> and the mesh mounted at
  its \<^verbatim>\<open>position\<close> prop.
\<close>

definition mount :: "TrayProps \<Rightarrow> TrayState" where
  "mount p = \<lparr> isOpen = False, meshRef = Some (position (Tray_mesh p)) \<rparr>"

subsection \<open>\<^verbatim>\<open>Tray\<close>: the frame callback and the click handler\<close>

text \<open>
  Modelled from the spec: \<^verbatim>\<open>THREE.MathUtils.lerp\<close> is library code that is not
  under \<^verbatim>\<open>src/\<close>. The specification uses it as the linear interpolation
  \<open>current + (target - current) * t\<close>, which three.js writes as
  \<^verbatim>\<open>(1 - t) * x + t * y\<close>, with no clamping of \<open>t\<close>.
\<close>

definition lerp :: "real \<Rightarrow> real \<Rightarrow> real \<Rightarrow> real" where
  "lerp x y t = (1 - t) * x + t * y"

definition targetDist :: "TrayProps \<Rightarrow> bool \<Rightarrow> real" where
  "targetDist p opn = (if opn then openDist p else closedDist p)"

definition currentDist :: "Vector3 \<Rightarrow> real" where
  "currentDist m = sqrt (pos_x m * pos_x m + pos_z m * pos_z m)"

definition newDist :: "real \<Rightarrow> real \<Rightarrow> real \<Rightarrow> real" where
  "newDist cur tgt delta = lerp cur tgt (delta * 8)"

definition useFrame :: "TrayProps \<Rightarrow> real \<Rightarrow> TrayState \<Rightarrow> TrayState" where
  "useFrame p delta st = (case meshRef st of
     None \<Rightarrow> st
   | Some m \<Rightarrow>
       let d = newDist (currentDist m) (targetDist p (isOpen st)) delta
       in st \<lparr> meshRef := Some (m \<lparr> pos_x := cos (faceAngle p) * d,
                                     pos_z := sin (faceAngle p) * d \<rparr>) \<rparr>)"

definition onClick :: "TrayState \<Rightarrow> TrayState" where
  "onClick st = st \<lparr> isOpen := \<not> isOpen st \<rparr>"

text \<open>What can happen to a mounted tray: a frame with its elapsed time, or a click.\<close>

datatype event = Frame real | Click

fun step :: "TrayProps \<Rightarrow> TrayState \<Rightarrow> event \<Rightarrow> TrayState" where
  "step p st (Frame delta) = useFrame p delta st"
| "step p st Click = onClick st"

definition run :: "TrayProps \<Rightarrow> TrayState \<Rightarrow> event list \<Rightarrow> TrayState" where
  "run p st evs = foldl (step p) st evs"

text \<open>The distance the next frame will read back, when the mesh is mounted.\<close>

definition readDist :: "TrayState \<Rightarrow> real option" where
  "readDist st = map_option currentDist (meshRef st)"

subsection \<open>\<^verbatim>\<open>SeptagonCase\<close>\<close>

definition SeptagonCase_tray :: TrayProps where
  "SeptagonCase_tray =
     \<lparr> index = 3, radius = 3, height = 1.5, segments = 7, innerRadius = 1.2 \<rparr>"

definition SeptagonCase_sideBox :: SideBoxProps where
  "SeptagonCase_sideBox = \<lparr> index = 0, radius = 3, height = 1.5, segments = 7 \<rparr>"

subsection \<open>\<^verbatim>\<open>ClockContent\<close>\<close>

text \<open>
  \<^verbatim>\<open>ClockContent\<close> formats \<^verbatim>\<open>time\<close> three times through the host's
  \<^verbatim>\<open>toLocaleTimeString\<close> and \<^verbatim>\<open>toLocaleDateString\<close>, always for the locale
  \<^verbatim>\<open>en-US\<close>. The instant enters the model already broken down into the
  calendar fields of the host's time zone.
\<close>

datatype weekday = Sunday | Monday | Tuesday | Wednesday | Thursday | Friday | Saturday

datatype month = January | February | March | April | May | June | July
  | August | September | October | November | December

record LocalTime =
  wday :: weekday
  mon :: month
  mday :: nat
  hours :: nat
  minutes :: nat
  seconds :: nat

text \<open>
  Modelled from the spec: the formatter behind \<^verbatim>\<open>toLocaleTimeString\<close> and
  \<^verbatim>\<open>toLocaleDateString\<close> is host code that is not under \<^verbatim>\<open>src/\<close>. The
  functions below give each option the source passes the meaning the
  specification states for it: \<^verbatim>\<open>'2-digit'\<close> is a field padded with zeros to
  two digits, \<^verbatim>\<open>hour12: false\<close> is the 24-hour clock, \<^verbatim>\<open>weekday: 'long'\<close> is the
  full English name of the day, \<^verbatim>\<open>month: 'short'\<close> is the three-letter
  abbreviation of the month and \<^verbatim>\<open>day: 'numeric'\<close> is the day of the month
  without padding.
\<close>

definition digit :: "nat \<Rightarrow> char" where
  "digit n = ''0123456789'' ! n"

definition two_digit :: "nat \<Rightarrow> string" where
  "two_digit n = [digit (n div 10 mod 10), digit (n mod 10)]"

fun numeric :: "nat \<Rightarrow> string" where
  "numeric n = (if n < 10 then [digit n] else numeric (n div 10) @ [digit (n mod 10)])"

declare numeric.simps [simp del]

fun weekday_long :: "weekday \<Rightarrow> string" where
  "weekday_long Sunday = ''Sunday''"
| "weekday_long Monday = ''Monday''"
| "weekday_long Tuesday = ''Tuesday''"
| "weekday_long Wednesday = ''Wednesday''"
| "weekday_long Thursday = ''Thursday''"
| "weekday_long Friday = ''Friday''"
| "weekday_long Saturday = ''Saturday''"

fun month_short :: "month \<Rightarrow> string" where
  "month_short January = ''Jan''"
| "month_short February = ''Feb''"
| "month_short March = ''Mar''"
| "month_short April = ''Apr''"
| "month_short May = ''May''"
| "month_short June = ''Jun''"
| "month_short July = ''Jul''"
| "month_short August = ''Aug''"
| "month_short September = ''Sep''"
| "month_short October = ''Oct''"
| "month_short November = ''Nov''"
| "month_short December = ''Dec''"

text \<open>
  \<^verbatim>\<open>time.toLocaleTimeString('en-US', {hour: '2-digit', minute: '2-digit',
  second: '2-digit', hour12: false})\<close>
\<close>

definition timeString :: "LocalTime \<Rightarrow> string" where
  "timeString t =
     two_digit (hours t) @ '':'' @ two_digit (minutes t) @ '':'' @ two_digit (seconds t)"

text \<open>\<^verbatim>\<open>time.toLocaleDateString('en-US', {weekday: 'long'})\<close>\<close>

definition dayString :: "LocalTime \<Rightarrow> string" where
  "dayString t = weekday_long (wday t)"

text \<open>\<^verbatim>\<open>time.toLocaleDateString('en-US', {month: 'short', day: 'numeric'})\<close>\<close>

definition dateString :: "LocalTime \<Rightarrow> string" where
  "dateString t = month_short (mon t) @ '' '' @ numeric (mday t)"

text \<open>The three strings \<^verbatim>\<open>ClockContent\<close> renders, from top to bottom.\<close>

definition ClockContent :: "LocalTime \<Rightarrow> string \<times> string \<times> string" where
  "ClockContent t = (dayString t, timeString t, dateString t)"

section \<open>Basic facts\<close>

lemma newDist_gap: "newDist c t e - t = (1 - 8 * e) * (c - t)"
  by (simp add: newDist_def lerp_def algebra_simps)

lemma currentDist_polar:
  "currentDist (m \<lparr> pos_x := cos a * d, pos_z := sin a * d \<rparr>) = \<bar>d\<bar>"
proof -
  have one: "cos a * cos a + sin a * sin a = 1"
    using sin_cos_squared_add2 [of a] by (simp add: power2_eq_square)
  have "cos a * d * (cos a * d) + sin a * d * (sin a * d)
      = (cos a * cos a + sin a * sin a) * (d * d)"
    by (simp only: algebra_simps)
  then have "cos a * d * (cos a * d) + sin a * d * (sin a * d) = d * d"
    by (simp only: one mult_1)
  then show ?thesis
    by (simp add: currentDist_def)
qed

lemma currentDist_nonneg: "0 \<le> currentDist m"
  by (simp add: currentDist_def)

lemma SeptagonCase_faceAngle: "faceAngle SeptagonCase_tray = pi"
  by (simp add: faceAngle_def angleStep_def SeptagonCase_tray_def)

lemma SeptagonCase_closedDist: "closedDist SeptagonCase_tray = 2"
  by (simp add: closedDist_def startRadius_def length_tray_def SeptagonCase_tray_def)

lemma SeptagonCase_openDist: "openDist SeptagonCase_tray = 7 / 2"
  by (simp add: openDist_def SeptagonCase_closedDist)

lemma readDist_useFrame:
  "readDist (useFrame p delta st) =
     map_option (\<lambda>c. \<bar>newDist c (targetDist p (isOpen st)) delta\<bar>) (readDist st)"
  by (cases "meshRef st") (simp_all add: readDist_def useFrame_def Let_def currentDist_polar)

lemma meshRef_useFrame:
  "meshRef (useFrame p delta st) =
     map_option (\<lambda>m. m \<lparr> pos_x := cos (faceAngle p) * newDist (currentDist m) (targetDist p (isOpen st)) delta,
                          pos_z := sin (faceAngle p) * newDist (currentDist m) (targetDist p (isOpen st)) delta \<rparr>)
       (meshRef st)"
  by (cases "meshRef st") (simp_all add: useFrame_def Let_def)

lemma isOpen_useFrame: "isOpen (useFrame p delta st) = isOpen st"
  by (cases "meshRef st") (simp_all add: useFrame_def Let_def)

lemma readDist_onClick: "readDist (onClick st) = readDist st"
  by (simp add: readDist_def onClick_def)

lemma readDist_mount: "readDist (mount p) = Some \<bar>closedDist p\<bar>"
  using currentDist_polar [where m = "\<lparr>pos_x = 0, pos_y = height p / 2, pos_z = 0\<rparr>"
      and a = "faceAngle p" and d = "closedDist p"]
  by (simp add: readDist_def mount_def Tray_mesh_def)

lemma readDist_nonneg: "readDist st = Some c \<Longrightarrow> 0 \<le> c"
  by (auto simp: readDist_def currentDist_nonneg)

lemma run_Cons: "run p st (e # evs) = run p (step p st e) evs"
  by (simp add: run_def)

lemma run_Nil: "run p st [] = st"
  by (simp add: run_def)

lemma run_snoc: "run p st (evs @ [e]) = step p (run p st evs) e"
  by (simp add: run_def)

lemma replicate_ten: "replicate 10 x = [x, x, x, x, x, x, x, x, x, x]"
  by (simp add: numeral_eq_Suc)

lemma isOpen_clicked: "isOpen (onClick (mount p)) = True"
  by (simp add: onClick_def mount_def)

lemma abs_reflect_gap:
  fixes d t :: real
  assumes "0 \<le> t"
  shows "\<bar>\<bar>d\<bar> - t\<bar> \<le> \<bar>d - t\<bar>"
  using assms by linarith

lemma meshRef_onClick: "meshRef (onClick st) = meshRef st"
  by (simp add: onClick_def)

lemma step_on_ray:
  assumes "meshRef st = Some \<lparr> pos_x = cos (faceAngle p) * d, pos_y = h, pos_z = sin (faceAngle p) * d \<rparr>"
  shows "\<exists>d'. meshRef (step p st ev)
           = Some \<lparr> pos_x = cos (faceAngle p) * d', pos_y = h, pos_z = sin (faceAngle p) * d' \<rparr>"
proof (cases ev)
  case (Frame delta)
  then show ?thesis
    using assms by (simp add: meshRef_useFrame) blast
next
  case Click
  then show ?thesis
    using assms by (simp add: meshRef_onClick) blast
qed

lemma run_on_ray:
  "\<exists>d. meshRef (run p (mount p) evs)
     = Some \<lparr> pos_x = cos (faceAngle p) * d, pos_y = height p / 2, pos_z = sin (faceAngle p) * d \<rparr>"
proof (induction evs rule: rev_induct)
  case Nil
  show ?case
    by (simp add: run_Nil mount_def Tray_mesh_def) blast
next
  case (snoc ev evs)
  then obtain d where "meshRef (run p (mount p) evs)
     = Some \<lparr> pos_x = cos (faceAngle p) * d, pos_y = height p / 2, pos_z = sin (faceAngle p) * d \<rparr>"
    by blast
  from step_on_ray [OF this] show ?case
    by (simp add: run_snoc)
qed

lemma faceAngle_shift:
  assumes "segments p \<noteq> 0"
  shows "faceAngle (p \<lparr> index := index p + segments p \<rparr>) = faceAngle p + 2 * pi"
  using assms by (simp add: faceAngle_def angleStep_def field_simps)

lemma SideBox_faceAngle_shift:
  assumes "segments q \<noteq> 0"
  shows "SideBox_faceAngle (q \<lparr> index := index q + segments q \<rparr>) = SideBox_faceAngle q + 2 * pi"
  using assms by (simp add: SideBox_faceAngle_def SideBox_angleStep_def field_simps)

lemma numeric_short:
  assumes "n < 100"
  shows "numeric n = (if n < 10 then [digit n] else [digit (n div 10), digit (n mod 10)])"
proof (cases "n < 10")
  case True
  then show ?thesis by (simp add: numeric.simps)
next
  case False
  moreover have "n div 10 < 10" using assms by simp
  ultimately show ?thesis
    by (simp add: numeric.simps [of n] numeric.simps [of "n div 10"])
qed

lemma length_month_short: "length (month_short m) = 3"
  by (cases m) simp_all

lemma newDist_eq: "newDist c t e = t + (1 - 8 * e) * (c - t)"
  using newDist_gap [of c t e] by simp

lemma blend_nonneg:
  fixes c t q :: real
  assumes "0 \<le> c" and "0 \<le> t" and "0 \<le> q" and "q \<le> 1"
  shows "0 \<le> t + q * (c - t)"
proof -
  have "t + q * (c - t) = (1 - q) * t + q * c"
    by (simp add: algebra_simps)
  moreover have "0 \<le> (1 - q) * t" "0 \<le> q * c"
    using assms by simp_all
  ultimately show ?thesis by linarith
qed

lemma blend_range:
  fixes d t lo hi q :: real
  assumes "lo \<le> d" "d \<le> hi" "lo \<le> t" "t \<le> hi" "0 \<le> q" "q \<le> 1"
  shows "lo \<le> d + q * (t - d) \<and> d + q * (t - d) \<le> hi"
proof -
  have eq: "d + q * (t - d) = (1 - q) * d + q * t"
    by (simp add: algebra_simps)
  have "(1 - q) * lo \<le> (1 - q) * d" "q * lo \<le> q * t" "(1 - q) * d \<le> (1 - q) * hi" "q * t \<le> q * hi"
    using assms by (simp_all add: mult_left_mono)
  moreover have "(1 - q) * lo + q * lo = lo" "(1 - q) * hi + q * hi = hi"
    by (simp_all add: algebra_simps)
  ultimately show ?thesis
    unfolding eq by linarith
qed

lemma currentDist_x_axis: "currentDist \<lparr> pos_x = a, pos_y = b, pos_z = 0 \<rparr> = \<bar>a\<bar>"
  by (simp add: currentDist_def)

lemma currentDist_ray:
  "currentDist \<lparr> pos_x = cos a * d, pos_y = h, pos_z = sin a * d \<rparr> = \<bar>d\<bar>"
  using currentDist_polar [where m = "\<lparr> pos_x = 0, pos_y = h, pos_z = 0 \<rparr>" and a = a and d = d]
  by simp

lemma mount_SeptagonCase:
  "mount SeptagonCase_tray = \<lparr> isOpen = False, meshRef = Some \<lparr> pos_x = - 2, pos_y = 3 / 4, pos_z = 0 \<rparr> \<rparr>"
  by (simp add: mount_def Tray_mesh_def SeptagonCase_faceAngle SeptagonCase_closedDist)
    (simp add: SeptagonCase_tray_def)

lemma useFrame_SeptagonCase:
  "useFrame SeptagonCase_tray delta \<lparr> isOpen = b, meshRef = Some \<lparr> pos_x = a, pos_y = h, pos_z = 0 \<rparr> \<rparr>
     = \<lparr> isOpen = b, meshRef = Some \<lparr> pos_x = - newDist \<bar>a\<bar> (if b then 7 / 2 else 2) delta, pos_y = h, pos_z = 0 \<rparr> \<rparr>"
  by (simp add: useFrame_def Let_def currentDist_x_axis targetDist_def SeptagonCase_faceAngle
      SeptagonCase_closedDist SeptagonCase_openDist)

lemma replicate_frames_snoc:
  "run p st (replicate (Suc n) ev) = step p (run p st (replicate n ev)) ev"
proof -
  have "replicate (Suc n) ev = replicate n ev @ [ev]"
    by (simp add: replicate_append_same)
  then show ?thesis
    by (simp only: run_snoc)
qed

lemma frames_mesh:
  assumes m: "meshRef st = Some m" and t0: "0 \<le> targetDist p (isOpen st)"
    and e0: "0 \<le> e" and e8: "e \<le> 1 / 8"
  shows "isOpen (run p st (replicate n (Frame e))) = isOpen st
         \<and> meshRef (run p st (replicate n (Frame e))) =
             Some (if n = 0 then m else
               m \<lparr> pos_x := cos (faceAngle p) *
                      (targetDist p (isOpen st) + (1 - 8 * e) ^ n * (currentDist m - targetDist p (isOpen st))),
                    pos_z := sin (faceAngle p) *
                      (targetDist p (isOpen st) + (1 - 8 * e) ^ n * (currentDist m - targetDist p (isOpen st))) \<rparr>)"
proof (induction n)
  case 0
  show ?case by (simp add: run_Nil m)
next
  case (Suc n)
  define t where "t = targetDist p (isOpen st)"
  define c where "c = currentDist m"
  define D where "D = (\<lambda>k. t + (1 - 8 * e) ^ k * (c - t))"
  define S where "S = run p st (replicate n (Frame e))"
  define M where "M = (if n = 0 then m else m \<lparr> pos_x := cos (faceAngle p) * D n, pos_z := sin (faceAngle p) * D n \<rparr>)"
  have q: "0 \<le> (1 - 8 * e) ^ n" "(1 - 8 * e) ^ n \<le> 1"
    using e0 e8 by (simp_all add: power_le_one)
  have c0: "0 \<le> c" by (simp add: c_def currentDist_nonneg)
  have Dn: "0 \<le> D n"
    unfolding D_def using c0 t0 q by (intro blend_nonneg) (simp_all add: t_def)
  have open_S: "isOpen S = isOpen st" and mesh_S: "meshRef S = Some M"
    using Suc by (simp_all add: S_def M_def D_def t_def c_def)
  have cur: "currentDist M = D n"
  proof (cases "n = 0")
    case True
    then show ?thesis by (simp add: M_def D_def c_def)
  next
    case False
    then show ?thesis using Dn by (simp add: M_def currentDist_polar)
  qed
  have next_D: "newDist (D n) t e = D (Suc n)"
    by (simp add: newDist_eq D_def)
  have upd: "M \<lparr> pos_x := a, pos_z := b \<rparr> = m \<lparr> pos_x := a, pos_z := b \<rparr>" for a b
    by (simp add: M_def)
  have "run p st (replicate (Suc n) (Frame e)) = useFrame p e S"
    by (simp only: replicate_frames_snoc S_def step.simps)
  moreover have "isOpen (useFrame p e S) = isOpen st"
    by (simp add: isOpen_useFrame open_S)
  moreover have "meshRef (useFrame p e S)
      = Some (m \<lparr> pos_x := cos (faceAngle p) * D (Suc n), pos_z := sin (faceAngle p) * D (Suc n) \<rparr>)"
    by (simp add: meshRef_useFrame mesh_S open_S cur t_def [symmetric] next_D upd)
  ultimately show ?case
    by (simp add: D_def t_def c_def)
qed

lemma frames_readDist:
  assumes m: "meshRef st = Some m" and t0: "0 \<le> targetDist p (isOpen st)"
    and e0: "0 \<le> e" and e8: "e \<le> 1 / 8"
  shows "readDist (run p st (replicate n (Frame e)))
      = Some (targetDist p (isOpen st) + (1 - 8 * e) ^ n * (currentDist m - targetDist p (isOpen st)))"
proof -
  have q: "0 \<le> (1 - 8 * e) ^ n" "(1 - 8 * e) ^ n \<le> 1"
    using e0 e8 by (simp_all add: power_le_one)
  have "0 \<le> targetDist p (isOpen st) + (1 - 8 * e) ^ n * (currentDist m - targetDist p (isOpen st))"
    using t0 q by (intro blend_nonneg) (simp_all add: currentDist_nonneg)
  then show ?thesis
    using frames_mesh [OF assms, of n]
    by (cases "n = 0") (simp_all add: readDist_def currentDist_polar)
qed

lemma frame_on_ray:
  assumes "meshRef st = Some \<lparr> pos_x = cos (faceAngle p) * d, pos_y = h, pos_z = sin (faceAngle p) * d \<rparr>"
    and "0 \<le> d"
  shows "meshRef (useFrame p delta st) =
    Some \<lparr> pos_x = cos (faceAngle p) * (d + 8 * delta * (targetDist p (isOpen st) - d)), pos_y = h,
           pos_z = sin (faceAngle p) * (d + 8 * delta * (targetDist p (isOpen st) - d)) \<rparr>"
proof -
  have "newDist d (targetDist p (isOpen st)) delta = d + 8 * delta * (targetDist p (isOpen st) - d)"
    by (simp add: newDist_def lerp_def algebra_simps)
  then show ?thesis
    using assms by (simp add: meshRef_useFrame currentDist_ray)
qed

lemma targetDist_range:
  "closedDist p \<le> targetDist p b \<and> targetDist p b \<le> openDist p"
  by (simp add: targetDist_def openDist_def)

lemma run_in_range:
  assumes c0: "0 \<le> closedDist p"
    and ok: "list_all (\<lambda>ev. case ev of Frame d \<Rightarrow> 0 \<le> d \<and> d \<le> 1 / 8 | Click \<Rightarrow> True) evs"
  shows "\<exists>d. closedDist p \<le> d \<and> d \<le> openDist p
           \<and> meshRef (run p (mount p) evs)
               = Some \<lparr> pos_x = cos (faceAngle p) * d, pos_y = height p / 2, pos_z = sin (faceAngle p) * d \<rparr>"
  using ok
proof (induction evs rule: rev_induct)
  case Nil
  have "closedDist p \<le> openDist p"
    by (simp add: openDist_def)
  then show ?case
    by (intro exI [of _ "closedDist p"]) (simp add: run_Nil mount_def Tray_mesh_def)
next
  case (snoc ev evs)
  then obtain d where d: "closedDist p \<le> d" "d \<le> openDist p"
    and mesh: "meshRef (run p (mount p) evs)
      = Some \<lparr> pos_x = cos (faceAngle p) * d, pos_y = height p / 2, pos_z = sin (faceAngle p) * d \<rparr>"
    by auto
  show ?case
  proof (cases ev)
    case Click
    then show ?thesis
      using d mesh by (intro exI [of _ d]) (simp add: run_snoc meshRef_onClick)
  next
    case (Frame delta)
    with snoc.prems have delta: "0 \<le> delta" "delta \<le> 1 / 8"
      by simp_all
    define t where "t = targetDist p (isOpen (run p (mount p) evs))"
    have "0 \<le> d" using c0 d(1) by linarith
    from frame_on_ray [OF mesh this, of delta]
    have "meshRef (run p (mount p) (evs @ [ev])) =
        Some \<lparr> pos_x = cos (faceAngle p) * (d + 8 * delta * (t - d)), pos_y = height p / 2,
               pos_z = sin (faceAngle p) * (d + 8 * delta * (t - d)) \<rparr>"
      by (simp add: run_snoc Frame t_def)
    moreover have "closedDist p \<le> d + 8 * delta * (t - d) \<and> d + 8 * delta * (t - d) \<le> openDist p"
      using d targetDist_range [of p "isOpen (run p (mount p) evs)"] delta
      by (intro blend_range) (simp_all add: t_def)
    ultimately show ?thesis
      by blast
  qed
qed

lemma of_char_digit:
  assumes "a < 10"
  shows "of_char (digit a) = (48 + a :: nat)"
proof -
  from assms have "a \<in> {0, 1, 2, 3, 4, 5, 6, 7, 8, 9}" by auto
  then show ?thesis
    by (auto simp: digit_def)
qed

lemma two_digit_nth:
  assumes "n < 100"
  shows "length (two_digit n) = 2"
    and "of_char (two_digit n ! 0) = (48 + n div 10 :: nat)"
    and "of_char (two_digit n ! 1) = (48 + n mod 10 :: nat)"
proof -
  have "n div 10 < 10" using assms by simp
  then show "of_char (two_digit n ! 0) = (48 + n div 10 :: nat)"
    by (simp add: two_digit_def of_char_digit)
  show "length (two_digit n) = 2" "of_char (two_digit n ! 1) = (48 + n mod 10 :: nat)"
    by (simp_all add: two_digit_def of_char_digit)
qed

lemma timeString_shape:
  assumes "hours t < 24" and "minutes t < 60" and "seconds t < 60"
  shows "length (timeString t) = 8 \<and> timeString t ! 2 = CHR '':'' \<and> timeString t ! 5 = CHR '':''
    \<and> of_char (timeString t ! 0) = (48 + hours t div 10 :: nat)
    \<and> of_char (timeString t ! 1) = (48 + hours t mod 10 :: nat)
    \<and> of_char (timeString t ! 3) = (48 + minutes t div 10 :: nat)
    \<and> of_char (timeString t ! 4) = (48 + minutes t mod 10 :: nat)
    \<and> of_char (timeString t ! 6) = (48 + seconds t div 10 :: nat)
    \<and> of_char (timeString t ! 7) = (48 + seconds t mod 10 :: nat)"
proof -
  obtain a b where h: "two_digit (hours t) = [a, b]"
    by (simp add: two_digit_def)
  obtain c d where m: "two_digit (minutes t) = [c, d]"
    by (simp add: two_digit_def)
  obtain e f where s: "two_digit (seconds t) = [e, f]"
    by (simp add: two_digit_def)
  have ts: "timeString t = [a, b, CHR '':'', c, d, CHR '':'', e, f]"
    by (simp add: timeString_def h m s)
  have "hours t < 100" "minutes t < 100" "seconds t < 100"
    using assms by simp_all
  from two_digit_nth(2,3) [OF this(1)] two_digit_nth(2,3) [OF this(2)] two_digit_nth(2,3) [OF this(3)]
  show ?thesis
    by (simp add: ts h m s)
qed

lemma dateString_shape:
  assumes "1 \<le> mday t" and "mday t \<le> 31"
  shows "take 3 (dateString t) = month_short (mon t) \<and> dateString t ! 3 = CHR '' ''
    \<and> length (dateString t) = (if mday t < 10 then 5 else 6)
    \<and> of_char (dateString t ! 4) = (48 + (if mday t < 10 then mday t else mday t div 10) :: nat)
    \<and> (10 \<le> mday t \<longrightarrow> of_char (dateString t ! 5) = (48 + mday t mod 10 :: nat))"
proof -
  obtain x y z where ms: "month_short (mon t) = [x, y, z]"
    by (cases "mon t") simp_all
  have lt: "mday t < 100" "mday t div 10 < 10"
    using assms by simp_all
  show ?thesis
    by (simp add: dateString_def ms numeric_short [OF lt(1)] of_char_digit lt(2))
qed

section \<open>The chord of the heptagon\<close>

text \<open>
  The tray is sized by \<open>sin (pi / 7)\<close>. Since \<open>sin (7 * x)\<close> is a polynomial in
  \<open>sin x\<close> and \<open>sin pi = 0\<close>, the square of \<open>sin (pi / 7)\<close> is a root of a cubic
  that is monotone on \<open>[0, 1/4]\<close>, which encloses it between rationals.
\<close>

lemma sin_seven:
  fixes x :: real
  shows "sin (7 * x) = sin x * (7 - 56 * (sin x)\<^sup>2 + 112 * (sin x)^4 - 64 * (sin x)^6)"
proof -
  define s where "s = sin x"
  define c where "c = cos x"
  have cc: "c * c = 1 - s * s"
    using sin_cos_squared_add [of x] by (simp add: s_def c_def power2_eq_square algebra_simps)
  have s2: "sin (2 * x) = 2 * s * c"
    by (simp add: sin_double s_def c_def)
  have c2: "cos (2 * x) = 1 - 2 * (s * s)"
    by (simp add: cos_double_sin s_def power2_eq_square)
  have s4: "sin (4 * x) = 2 * (2 * s * c) * (1 - 2 * (s * s))"
    using sin_double [of "2 * x"] by (simp add: s2 c2)
  have c4: "cos (4 * x) = 1 - 2 * ((2 * s * c) * (2 * s * c))"
    using cos_double_sin [of "2 * x"] by (simp add: s2 power2_eq_square)
  have s3: "sin (3 * x) = (2 * s * c) * c + (1 - 2 * (s * s)) * s"
    using sin_add [of "2 * x" x] by (simp add: s2 c2 s_def c_def)
  have c3: "cos (3 * x) = (1 - 2 * (s * s)) * c - (2 * s * c) * s"
    using cos_add [of "2 * x" x] by (simp add: s2 c2 s_def c_def)
  have "sin (7 * x) = sin (3 * x) * cos (4 * x) + cos (3 * x) * sin (4 * x)"
    using sin_add [of "3 * x" "4 * x"] by simp
  also have "\<dots> = ((2 * s * c) * c + (1 - 2 * (s * s)) * s) * (1 - 2 * ((2 * s * c) * (2 * s * c)))
      + ((1 - 2 * (s * s)) * c - (2 * s * c) * s) * (2 * (2 * s * c) * (1 - 2 * (s * s)))"
    by (simp only: s3 c3 s4 c4)
  also have "\<dots> = (2 * s * (c * c) + (1 - 2 * (s * s)) * s) * (1 - 8 * (s * s) * (c * c))
      + 4 * s * (c * c) * (1 - 4 * (s * s)) * (1 - 2 * (s * s))"
    by (simp add: algebra_simps)
  also have "\<dots> = (2 * s * (1 - s * s) + (1 - 2 * (s * s)) * s) * (1 - 8 * (s * s) * (1 - s * s))
      + 4 * s * (1 - s * s) * (1 - 4 * (s * s)) * (1 - 2 * (s * s))"
    by (simp only: cc)
  also have "\<dots> = s * (7 - 56 * s\<^sup>2 + 112 * s^4 - 64 * s^6)"
    by (simp add: algebra_simps power2_eq_square power4_eq_xxxx eval_nat_numeral)
  finally show ?thesis
    by (simp add: s_def)
qed

lemma septic_mono:
  fixes u v :: real
  assumes "0 \<le> u" "u \<le> v" "v \<le> 1/4"
  shows "64 * u^3 - 112 * u\<^sup>2 + 56 * u \<le> 64 * v^3 - 112 * v\<^sup>2 + 56 * v"
proof -
  have eq: "(64 * v^3 - 112 * v\<^sup>2 + 56 * v) - (64 * u^3 - 112 * u\<^sup>2 + 56 * u)
      = (v - u) * (64 * (v * v + u * v + u * u) + (56 - 112 * (u + v)))"
    by (simp add: algebra_simps power2_eq_square power3_eq_cube)
  have "0 \<le> v" using assms by linarith
  then have "0 \<le> 64 * (v * v + u * v + u * u)"
    using assms by simp
  moreover have "0 \<le> 56 - 112 * (u + v)" using assms by argo
  ultimately have "0 \<le> (v - u) * (64 * (v * v + u * v + u * u) + (56 - 112 * (u + v)))"
    using assms by (intro mult_nonneg_nonneg add_nonneg_nonneg) simp_all
  then show ?thesis using eq by linarith
qed

lemma sin_pi7_root:
  "64 * ((sin (pi/7))\<^sup>2)^3 - 112 * ((sin (pi/7))\<^sup>2)\<^sup>2 + 56 * (sin (pi/7))\<^sup>2 = 7"
proof -
  have pos: "0 < sin (pi / 7)"
    by (rule sin_gt_zero) simp_all
  have "sin (7 * (pi / 7)) = 0" by simp
  then have "sin (pi/7) * (7 - 56 * (sin (pi/7))\<^sup>2 + 112 * (sin (pi/7))^4 - 64 * (sin (pi/7))^6) = 0"
    by (simp only: sin_seven)
  then have "7 - 56 * (sin (pi/7))\<^sup>2 + 112 * (sin (pi/7))^4 - 64 * (sin (pi/7))^6 = 0"
    using pos by simp
  moreover have "(sin (pi/7))^4 = ((sin (pi/7))\<^sup>2)\<^sup>2" "(sin (pi/7))^6 = ((sin (pi/7))\<^sup>2)^3"
    using power_mult [of "sin (pi/7)" 2 2] power_mult [of "sin (pi/7)" 2 3] by simp_all
  ultimately show ?thesis by linarith
qed

lemma sin_pi7_bounds: "43388 / 100000 < sin (pi / 7)" "sin (pi / 7) < 43389 / 100000"
proof -
  define s where "s = sin (pi / 7)"
  have pos: "0 < s"
    unfolding s_def by (rule sin_gt_zero) simp_all
  have "- (pi / 2) \<le> pi / 7" "pi / 7 \<le> pi / 2" "- (pi / 2) \<le> pi / 6" "pi / 6 \<le> pi / 2"
    and "pi / 7 < pi / 6"
    using pi_gt_zero by linarith+
  then have "sin (pi / 7) < sin (pi / 6)"
    by (simp only: sin_mono_less_eq)
  then have half: "s < 1 / 2"
    by (simp add: s_def sin_30)
  have root: "64 * (s\<^sup>2)^3 - 112 * (s\<^sup>2)\<^sup>2 + 56 * s\<^sup>2 = 7"
    unfolding s_def by (rule sin_pi7_root)
  have "s\<^sup>2 \<le> (1 / 2)\<^sup>2"
    using pos half by (intro power_mono) simp_all
  then have u4: "s\<^sup>2 \<le> 1 / 4"
    by (simp add: power2_eq_square)
  define u where "u = s\<^sup>2"
  define lo :: real where "lo = (43388 / 100000)\<^sup>2"
  define hi :: real where "hi = (43389 / 100000)\<^sup>2"
  have u0: "0 \<le> u" by (simp add: u_def)
  have rootu: "64 * u^3 - 112 * u\<^sup>2 + 56 * u = 7"
    using root by (simp only: u_def)
  have lo0: "0 \<le> lo" and lo4: "lo \<le> 1 / 4" and hi0: "0 \<le> hi"
    by (simp_all add: lo_def hi_def power2_eq_square)
  have plo: "64 * lo^3 - 112 * lo\<^sup>2 + 56 * lo < 7"
    by (simp add: lo_def power2_eq_square power3_eq_cube)
  have phi: "7 < 64 * hi^3 - 112 * hi\<^sup>2 + 56 * hi"
    by (simp add: hi_def power2_eq_square power3_eq_cube)
  show "43388 / 100000 < s"
  proof (rule ccontr)
    assume "\<not> 43388 / 100000 < s"
    then have "s \<le> 43388 / 100000" by simp
    then have "u \<le> lo"
      unfolding u_def lo_def using pos by (intro power_mono) simp_all
    from septic_mono [OF u0 this lo4] plo rootu show False
      by linarith
  qed
  show "s < 43389 / 100000"
  proof (rule ccontr)
    assume "\<not> s < 43389 / 100000"
    then have "43389 / 100000 \<le> s" by simp
    then have "hi \<le> u"
      unfolding u_def hi_def by (intro power_mono) simp_all
    moreover have "u \<le> 1 / 4"
      using u4 by (simp only: u_def)
    ultimately have "64 * hi^3 - 112 * hi\<^sup>2 + 56 * hi \<le> 64 * u^3 - 112 * u\<^sup>2 + 56 * u"
      using hi0 by (intro septic_mono)
    with phi rootu show False
      by linarith
  qed
qed

lemma chord_SeptagonCase: "chord SeptagonCase_tray = 12 / 5 * sin (pi / 7)"
  by (simp add: chord_def angleStep_def SeptagonCase_tray_def)

section \<open>The slide animation\<close>

text \<open>
  C1, the claim as stated, fails. Claim: running the frame update ten times
  with an elapsed time of 0.1 gives, within tolerance, the same distance as
  running it once with an elapsed time of 1.0. On the tray of
  \<^verbatim>\<open>SeptagonCase\<close>, clicked open at its closed distance 2 (target 3.5), ten
  frames of 0.1 s leave it at 34179686 / 9765625 (about 3.4999998) and one frame
  of 1 s leaves it at 14, more than 10 apart.
\<close>

theorem C1_counterexample:
  "readDist (run SeptagonCase_tray (onClick (mount SeptagonCase_tray)) (replicate 10 (Frame (1/10))))
     = Some (34179686 / 9765625)
   \<and> readDist (run SeptagonCase_tray (onClick (mount SeptagonCase_tray)) [Frame 1]) = Some 14
   \<and> \<not> \<bar>34179686 / 9765625 - 14\<bar> \<le> (10 :: real)"
  by (simp add: replicate_ten run_Cons run_Nil readDist_useFrame isOpen_useFrame readDist_onClick
      readDist_mount isOpen_clicked SeptagonCase_closedDist SeptagonCase_openDist targetDist_def
      newDist_def lerp_def)

text \<open>
  C1, as amended: the frame update is the linear blend
  \<open>new = target + (1 - 8 * elapsed) * (current - target)\<close>, read back through
  the square root, and it depends on the frame rate. For a non-negative target
  and an elapsed time \<open>e\<close> with \<open>0 \<le> e \<le> 1/8\<close> (no overshoot), \<open>n\<close> frames of \<open>e\<close>
  leave the tray on its ray at \<open>target + (1 - 8 * e) ^ n * (current - target)\<close>,
  while one frame of \<open>n * e\<close> leaves it at
  \<open>\<bar>target + (1 - 8 * n * e) * (current - target)\<bar>\<close>; two frames of \<open>e / 2\<close> end
  exactly \<open>16 * e\<^sup>2 * (current - target)\<close> beyond one frame of \<open>e\<close>. The
  trajectories agree to first order in the elapsed time only.
\<close>

theorem C1_linear_blend:
  assumes "meshRef st = Some m" and "0 \<le> targetDist p (isOpen st)"
    and "0 \<le> e" and "e \<le> 1 / 8"
  shows "meshRef (run p st (replicate (Suc n) (Frame e))) =
           Some (m \<lparr> pos_x := cos (faceAngle p) *
                      (targetDist p (isOpen st) + (1 - 8 * e) ^ Suc n * (currentDist m - targetDist p (isOpen st))),
                    pos_z := sin (faceAngle p) *
                      (targetDist p (isOpen st) + (1 - 8 * e) ^ Suc n * (currentDist m - targetDist p (isOpen st))) \<rparr>)
         \<and> readDist (run p st (replicate n (Frame e))) =
             Some (targetDist p (isOpen st) + (1 - 8 * e) ^ n * (currentDist m - targetDist p (isOpen st)))
         \<and> readDist (run p st [Frame (real n * e)]) =
             Some \<bar>targetDist p (isOpen st) + (1 - 8 * (real n * e)) * (currentDist m - targetDist p (isOpen st))\<bar>
         \<and> readDist (run p st [Frame e]) =
             Some (targetDist p (isOpen st) + (1 - 8 * e) * (currentDist m - targetDist p (isOpen st)))
         \<and> readDist (run p st [Frame (e / 2), Frame (e / 2)]) =
             Some (targetDist p (isOpen st) + (1 - 8 * e) * (currentDist m - targetDist p (isOpen st))
                   + 16 * e\<^sup>2 * (currentDist m - targetDist p (isOpen st)))"
proof -
  have rd: "readDist st = Some (currentDist m)"
    by (simp add: readDist_def assms(1))
  have one: "readDist (run p st [Frame (real n * e)]) =
      Some \<bar>targetDist p (isOpen st) + (1 - 8 * (real n * e)) * (currentDist m - targetDist p (isOpen st))\<bar>"
    by (simp add: run_Cons run_Nil readDist_useFrame rd newDist_eq)
  have single: "readDist (run p st [Frame e]) =
      Some (targetDist p (isOpen st) + (1 - 8 * e) * (currentDist m - targetDist p (isOpen st)))"
    using frames_readDist [OF assms, of 1] by (simp add: numeral_eq_Suc)
  have h0: "0 \<le> e / 2" and h8: "e / 2 \<le> 1 / 8"
    using assms(3,4) by simp_all
  have "readDist (run p st (replicate 2 (Frame (e / 2)))) =
      Some (targetDist p (isOpen st) + (1 - 8 * (e / 2)) ^ 2 * (currentDist m - targetDist p (isOpen st)))"
    by (rule frames_readDist [OF assms(1,2) h0 h8])
  moreover have "(1 - 8 * (e / 2)) ^ 2 * (currentDist m - targetDist p (isOpen st))
      = (1 - 8 * e) * (currentDist m - targetDist p (isOpen st))
        + 16 * e\<^sup>2 * (currentDist m - targetDist p (isOpen st))"
    by (simp add: power2_eq_square algebra_simps)
  ultimately have halves: "readDist (run p st [Frame (e / 2), Frame (e / 2)]) =
             Some (targetDist p (isOpen st) + (1 - 8 * e) * (currentDist m - targetDist p (isOpen st))
                   + 16 * e\<^sup>2 * (currentDist m - targetDist p (isOpen st)))"
    by (simp add: numeral_2_eq_2)
  from frames_mesh [OF assms, of "Suc n"] frames_readDist [OF assms, of n] one single halves
  show ?thesis
    by simp
qed

text \<open>
  C1, witness: the tray of \<^verbatim>\<open>SeptagonCase\<close>, clicked open at distance 2 with
  target 3.5: ten frames of 1/10 s against one frame of 1 s.
\<close>

theorem C1_linear_blend_witness:
  "meshRef (onClick (mount SeptagonCase_tray)) = Some \<lparr> pos_x = - 2, pos_y = 3 / 4, pos_z = 0 \<rparr>
   \<and> 0 \<le> targetDist SeptagonCase_tray (isOpen (onClick (mount SeptagonCase_tray)))
   \<and> (0 :: real) \<le> 1 / 10 \<and> (1 / 10 :: real) \<le> 1 / 8
   \<and> readDist (run SeptagonCase_tray (onClick (mount SeptagonCase_tray)) (replicate 10 (Frame (1 / 10))))
       = Some (7 / 2 + (1 - 8 * (1 / 10)) ^ 10 * (2 - 7 / 2))
   \<and> readDist (run SeptagonCase_tray (onClick (mount SeptagonCase_tray)) [Frame (real 10 * (1 / 10))])
       = Some \<bar>7 / 2 + (1 - 8 * (real 10 * (1 / 10))) * (2 - 7 / 2)\<bar>"
proof -
  have a: "meshRef (onClick (mount SeptagonCase_tray)) = Some \<lparr> pos_x = - 2, pos_y = 3 / 4, pos_z = 0 \<rparr>"
    by (simp add: mount_SeptagonCase onClick_def)
  have b: "0 \<le> targetDist SeptagonCase_tray (isOpen (onClick (mount SeptagonCase_tray)))"
    by (simp add: isOpen_clicked targetDist_def SeptagonCase_openDist)
  have t: "targetDist SeptagonCase_tray (isOpen (onClick (mount SeptagonCase_tray))) = 7 / 2"
    by (simp add: isOpen_clicked targetDist_def SeptagonCase_openDist)
  have c: "currentDist \<lparr> pos_x = - 2, pos_y = 3 / 4, pos_z = 0 \<rparr> = 2"
    by (simp add: currentDist_x_axis)
  have e: "(0 :: real) \<le> 1 / 10" "(1 / 10 :: real) \<le> 1 / 8"
    by simp_all
  from C1_linear_blend [OF a b e, of 10] a b show ?thesis
    by (simp only: t c) simp
qed

text \<open>
  C2, the claim as stated, fails. Claim: for every positive elapsed time the
  gap \<open>\<bar>currentDistance - target\<bar>\<close> does not grow from one frame to the next.
  On the tray of \<^verbatim>\<open>SeptagonCase\<close>, clicked open at distance 2 with target 3.5,
  one frame of 1 s moves it to 14: the gap grows from 1.5 to 10.5.
\<close>

theorem C2_counterexample:
  "readDist (onClick (mount SeptagonCase_tray)) = Some 2
   \<and> targetDist SeptagonCase_tray (isOpen (onClick (mount SeptagonCase_tray))) = 7/2
   \<and> readDist (useFrame SeptagonCase_tray 1 (onClick (mount SeptagonCase_tray))) = Some 14
   \<and> \<not> \<bar>14 - 7/2\<bar> \<le> \<bar>2 - 7/2 :: real\<bar>"
  by (simp add: readDist_useFrame readDist_onClick readDist_mount isOpen_clicked
      SeptagonCase_closedDist SeptagonCase_openDist targetDist_def newDist_def lerp_def)

text \<open>
  C2, as amended: for a non-negative target and an elapsed time with
  \<open>0 < elapsed \<le> 1/4\<close> (so that \<open>\<bar>1 - 8 * elapsed\<bar> \<le> 1\<close>), a frame leaves the
  target unchanged and the distance read back after it is no further from the
  target than the distance read before it.
\<close>

theorem C2_gap_nonincreasing:
  assumes "readDist st = Some c" and "0 < delta" and "delta \<le> 1/4"
    and "0 \<le> targetDist p (isOpen st)"
  shows "\<exists>c'. readDist (useFrame p delta st) = Some c'
           \<and> targetDist p (isOpen (useFrame p delta st)) = targetDist p (isOpen st)
           \<and> \<bar>c' - targetDist p (isOpen st)\<bar> \<le> \<bar>c - targetDist p (isOpen st)\<bar>"
proof -
  define t where "t = targetDist p (isOpen st)"
  define d where "d = newDist c t delta"
  have rd: "readDist (useFrame p delta st) = Some \<bar>d\<bar>"
    by (simp add: readDist_useFrame assms(1) d_def t_def)
  have "\<bar>1 - 8 * delta\<bar> \<le> 1"
    using assms(2,3) by (simp add: abs_le_iff)
  then have "\<bar>1 - 8 * delta\<bar> * \<bar>c - t\<bar> \<le> 1 * \<bar>c - t\<bar>"
    by (intro mult_right_mono) simp_all
  moreover have "\<bar>d - t\<bar> = \<bar>1 - 8 * delta\<bar> * \<bar>c - t\<bar>"
    by (simp add: d_def newDist_gap abs_mult)
  moreover have "\<bar>\<bar>d\<bar> - t\<bar> \<le> \<bar>d - t\<bar>"
    using assms(4) by (intro abs_reflect_gap) (simp add: t_def)
  ultimately have "\<bar>\<bar>d\<bar> - t\<bar> \<le> \<bar>c - t\<bar>"
    by linarith
  with rd show ?thesis
    by (simp add: isOpen_useFrame t_def)
qed

text \<open>
  C2, witness: the tray of \<^verbatim>\<open>SeptagonCase\<close>, clicked open, and one frame of
  1/60 s.
\<close>

theorem C2_gap_nonincreasing_witness:
  "readDist (onClick (mount SeptagonCase_tray)) = Some 2
   \<and> (0::real) < 1/60 \<and> (1/60 :: real) \<le> 1/4
   \<and> 0 \<le> targetDist SeptagonCase_tray (isOpen (onClick (mount SeptagonCase_tray)))
   \<and> (\<exists>c'. readDist (useFrame SeptagonCase_tray (1/60) (onClick (mount SeptagonCase_tray))) = Some c'
         \<and> \<bar>c' - targetDist SeptagonCase_tray (isOpen (onClick (mount SeptagonCase_tray)))\<bar>
             \<le> \<bar>2 - targetDist SeptagonCase_tray (isOpen (onClick (mount SeptagonCase_tray)))\<bar>)"
proof -
  have a: "readDist (onClick (mount SeptagonCase_tray)) = Some 2"
    by (simp add: readDist_onClick readDist_mount SeptagonCase_closedDist)
  have b: "0 \<le> targetDist SeptagonCase_tray (isOpen (onClick (mount SeptagonCase_tray)))"
    by (simp add: isOpen_clicked targetDist_def SeptagonCase_openDist)
  have "(0::real) < 1/60" "(1/60 :: real) \<le> 1/4" by simp_all
  from C2_gap_nonincreasing [OF a this b] a b show ?thesis
    by auto
qed

text \<open>
  C7: toggling twice restores the state, so \<open>isOpen\<close> returns to its original
  value; one toggle flips \<open>isOpen\<close> and leaves the mesh, hence the distance read
  back from it, exactly as it was; the frame that follows a toggle starts from
  the distance the tray had when it was clicked, now heading for the other
  target.
\<close>

theorem C7_toggle:
  "onClick (onClick st) = st
   \<and> isOpen (onClick st) = (\<not> isOpen st)
   \<and> meshRef (onClick st) = meshRef st
   \<and> readDist (onClick st) = readDist st
   \<and> readDist (useFrame p delta (onClick st)) =
       map_option (\<lambda>c. \<bar>newDist c (targetDist p (\<not> isOpen st)) delta\<bar>) (readDist st)"
  by (simp add: readDist_useFrame readDist_onClick) (simp add: onClick_def)

text \<open>
  C9, the claim as stated, fails in its second half. Claim: after the seeding
  the distance never jumps. On the tray of \<^verbatim>\<open>SeptagonCase\<close>, opened for 1/8 s and
  then closed with one frame of 1 s, the interpolated distance is \<open>-17/2\<close> and
  the mesh lands at \<open>x = 17/2\<close>, beyond the centre; the next frame, with no
  time elapsed at all, reads the distance back as \<open>17/2\<close> and throws the mesh to
  \<open>x = -17/2\<close>.
\<close>

theorem C9_counterexample:
  "meshRef (run SeptagonCase_tray (mount SeptagonCase_tray) [Click, Frame (1 / 8), Click, Frame 1])
     = Some \<lparr> pos_x = 17 / 2, pos_y = 3 / 4, pos_z = 0 \<rparr>
   \<and> meshRef (run SeptagonCase_tray (mount SeptagonCase_tray) [Click, Frame (1 / 8), Click, Frame 1, Frame 0])
     = Some \<lparr> pos_x = - (17 / 2), pos_y = 3 / 4, pos_z = 0 \<rparr>"
  by (simp add: run_Cons run_Nil mount_SeptagonCase onClick_def useFrame_SeptagonCase newDist_def
      lerp_def)

text \<open>
  C9, as amended: for a non-negative \<open>closedDist\<close> the mesh is mounted at the
  face position of exactly \<open>closedDist\<close>, that is the distance read back first,
  and the first frame, whatever its elapsed time, changes nothing. Afterwards,
  as long as every frame has an elapsed time between 0 and 1/8, the mesh stays
  on its ray at a distance \<open>d\<close> between \<open>closedDist\<close> and \<open>openDist\<close>; a further
  frame of elapsed time \<open>delta\<close> moves it along the ray by exactly
  \<open>8 * delta * (target - d)\<close>, which is at most \<open>12 * delta\<close>, and a click does
  not move it.
\<close>

theorem C9_seed_and_small_frames:
  assumes "0 \<le> closedDist p"
    and "list_all (\<lambda>ev. case ev of Frame d \<Rightarrow> 0 \<le> d \<and> d \<le> 1 / 8 | Click \<Rightarrow> True) evs"
    and "0 \<le> delta" and "delta \<le> 1 / 8"
  shows "meshRef (mount p)
           = Some \<lparr> pos_x = cos (faceAngle p) * closedDist p, pos_y = height p / 2,
                    pos_z = sin (faceAngle p) * closedDist p \<rparr>
         \<and> readDist (mount p) = Some (closedDist p)
         \<and> useFrame p first (mount p) = mount p
         \<and> (\<exists>d. closedDist p \<le> d \<and> d \<le> openDist p
              \<and> meshRef (run p (mount p) evs)
                  = Some \<lparr> pos_x = cos (faceAngle p) * d, pos_y = height p / 2,
                           pos_z = sin (faceAngle p) * d \<rparr>
              \<and> meshRef (run p (mount p) (evs @ [Frame delta]))
                  = Some \<lparr> pos_x = cos (faceAngle p) *
                             (d + 8 * delta * (targetDist p (isOpen (run p (mount p) evs)) - d)),
                           pos_y = height p / 2,
                           pos_z = sin (faceAngle p) *
                             (d + 8 * delta * (targetDist p (isOpen (run p (mount p) evs)) - d)) \<rparr>
              \<and> \<bar>8 * delta * (targetDist p (isOpen (run p (mount p) evs)) - d)\<bar> \<le> 12 * delta
              \<and> meshRef (run p (mount p) (evs @ [Click]))
                  = Some \<lparr> pos_x = cos (faceAngle p) * d, pos_y = height p / 2,
                           pos_z = sin (faceAngle p) * d \<rparr>)"
proof -
  have seed: "meshRef (mount p)
           = Some \<lparr> pos_x = cos (faceAngle p) * closedDist p, pos_y = height p / 2,
                    pos_z = sin (faceAngle p) * closedDist p \<rparr>"
    by (simp add: mount_def Tray_mesh_def)
  have rd: "readDist (mount p) = Some (closedDist p)"
    using assms(1) by (simp add: readDist_mount)
  have "isOpen (mount p) = False"
    by (simp add: mount_def)
  then have "meshRef (useFrame p first (mount p)) = meshRef (mount p)"
    using frame_on_ray [OF seed assms(1), of first] by (simp add: targetDist_def seed)
  moreover have "isOpen (useFrame p first (mount p)) = isOpen (mount p)"
    by (rule isOpen_useFrame)
  ultimately have first: "useFrame p first (mount p) = mount p"
    by simp
  obtain d where d: "closedDist p \<le> d" "d \<le> openDist p"
    and mesh: "meshRef (run p (mount p) evs)
      = Some \<lparr> pos_x = cos (faceAngle p) * d, pos_y = height p / 2, pos_z = sin (faceAngle p) * d \<rparr>"
    using run_in_range [OF assms(1,2)] by blast
  define t where "t = targetDist p (isOpen (run p (mount p) evs))"
  have "0 \<le> d" using assms(1) d(1) by linarith
  from frame_on_ray [OF mesh this, of delta]
  have fr: "meshRef (run p (mount p) (evs @ [Frame delta])) =
        Some \<lparr> pos_x = cos (faceAngle p) * (d + 8 * delta * (t - d)), pos_y = height p / 2,
               pos_z = sin (faceAngle p) * (d + 8 * delta * (t - d)) \<rparr>"
    by (simp add: run_snoc t_def)
  have tr: "closedDist p \<le> t" "t \<le> openDist p"
    using targetDist_range [of p "isOpen (run p (mount p) evs)"] by (simp_all add: t_def)
  have "\<bar>t - d\<bar> \<le> 3 / 2"
    using d tr unfolding openDist_def by linarith
  then have "8 * delta * \<bar>t - d\<bar> \<le> 8 * delta * (3 / 2)"
    using assms(3) by (intro mult_left_mono) simp_all
  then have bound: "\<bar>8 * delta * (t - d)\<bar> \<le> 12 * delta"
    using assms(3) by (simp add: abs_mult)
  have ck: "meshRef (run p (mount p) (evs @ [Click]))
      = Some \<lparr> pos_x = cos (faceAngle p) * d, pos_y = height p / 2, pos_z = sin (faceAngle p) * d \<rparr>"
    by (simp add: run_snoc meshRef_onClick mesh)
  from d mesh fr bound ck have "\<exists>d. closedDist p \<le> d \<and> d \<le> openDist p
              \<and> meshRef (run p (mount p) evs)
                  = Some \<lparr> pos_x = cos (faceAngle p) * d, pos_y = height p / 2,
                           pos_z = sin (faceAngle p) * d \<rparr>
              \<and> meshRef (run p (mount p) (evs @ [Frame delta]))
                  = Some \<lparr> pos_x = cos (faceAngle p) * (d + 8 * delta * (t - d)),
                           pos_y = height p / 2,
                           pos_z = sin (faceAngle p) * (d + 8 * delta * (t - d)) \<rparr>
              \<and> \<bar>8 * delta * (t - d)\<bar> \<le> 12 * delta
              \<and> meshRef (run p (mount p) (evs @ [Click]))
                  = Some \<lparr> pos_x = cos (faceAngle p) * d, pos_y = height p / 2,
                           pos_z = sin (faceAngle p) * d \<rparr>"
    by blast
  with seed rd first show ?thesis
    unfolding t_def by blast
qed

text \<open>
  C9, witness: the tray of \<^verbatim>\<open>SeptagonCase\<close> after a click and a frame of
  1/60 s, and one more frame of 1/60 s.
\<close>

theorem C9_seed_and_small_frames_witness:
  "0 \<le> closedDist SeptagonCase_tray
   \<and> list_all (\<lambda>ev. case ev of Frame d \<Rightarrow> 0 \<le> d \<and> d \<le> 1 / 8 | Click \<Rightarrow> True) [Click, Frame (1 / 60)]
   \<and> (0 :: real) \<le> 1 / 60 \<and> (1 / 60 :: real) \<le> 1 / 8
   \<and> readDist (mount SeptagonCase_tray) = Some 2
   \<and> useFrame SeptagonCase_tray 1 (mount SeptagonCase_tray) = mount SeptagonCase_tray
   \<and> (\<exists>d. 2 \<le> d \<and> d \<le> 7 / 2
         \<and> meshRef (run SeptagonCase_tray (mount SeptagonCase_tray) [Click, Frame (1 / 60)])
             = Some \<lparr> pos_x = - d, pos_y = 3 / 4, pos_z = 0 \<rparr>
         \<and> meshRef (run SeptagonCase_tray (mount SeptagonCase_tray) ([Click, Frame (1 / 60)] @ [Frame (1 / 60)]))
             = Some \<lparr> pos_x = - (d + 8 * (1 / 60) * (7 / 2 - d)), pos_y = 3 / 4, pos_z = 0 \<rparr>)"
proof -
  have a: "0 \<le> closedDist SeptagonCase_tray"
    by (simp add: SeptagonCase_closedDist)
  have b: "list_all (\<lambda>ev. case ev of Frame d \<Rightarrow> 0 \<le> d \<and> d \<le> 1 / 8 | Click \<Rightarrow> True) [Click, Frame (1 / 60)]"
    by simp
  have c: "(0 :: real) \<le> 1 / 60" "(1 / 60 :: real) \<le> 1 / 8"
    by simp_all
  have o: "isOpen (run SeptagonCase_tray (mount SeptagonCase_tray) [Click, Frame (1 / 60)]) = True"
    by (simp add: run_Cons run_Nil isOpen_useFrame isOpen_clicked)
  have h: "height SeptagonCase_tray / 2 = 3 / 4"
    by (simp add: SeptagonCase_tray_def)
  from C9_seed_and_small_frames [OF a b c, of 1] a b show ?thesis
    by (simp add: o h targetDist_def SeptagonCase_closedDist SeptagonCase_openDist SeptagonCase_faceAngle)
      blast
qed

text \<open>
  C10: whatever frames and clicks follow the mount, the mesh sits at
  \<open>(cos faceAngle * d, height / 2, sin faceAngle * d)\<close> for some \<open>d\<close>. A frame
  rewrites x and z to the face position of the new distance and leaves y alone;
  the distance read back afterwards is the absolute value of the interpolated
  one, every distance read back is non-negative, and an interpolated distance of
  \<open>-17/2\<close> (the \<^verbatim>\<open>SeptagonCase\<close> tray at 3.5, closing, after a frame of 1 s) is
  read back as \<open>17/2\<close>.
\<close>

theorem C10_on_ray:
  "(\<exists>d. meshRef (run p (mount p) evs)
       = Some \<lparr> pos_x = cos (faceAngle p) * d, pos_y = height p / 2, pos_z = sin (faceAngle p) * d \<rparr>)
   \<and> meshRef (useFrame p delta st) =
       map_option (\<lambda>m. m \<lparr> pos_x := cos (faceAngle p) * newDist (currentDist m) (targetDist p (isOpen st)) delta,
                            pos_z := sin (faceAngle p) * newDist (currentDist m) (targetDist p (isOpen st)) delta \<rparr>)
         (meshRef st)
   \<and> readDist (useFrame p delta st) =
       map_option (\<lambda>c. \<bar>newDist c (targetDist p (isOpen st)) delta\<bar>) (readDist st)
   \<and> (case readDist st of None \<Rightarrow> True | Some c \<Rightarrow> 0 \<le> c)
   \<and> readDist (useFrame SeptagonCase_tray 1
         \<lparr> isOpen = False, meshRef = Some \<lparr> pos_x = - (7 / 2), pos_y = 3 / 4, pos_z = 0 \<rparr> \<rparr>)
       = Some \<bar>- (17 / 2)\<bar>"
proof -
  have "case readDist st of None \<Rightarrow> True | Some c \<Rightarrow> 0 \<le> c"
    by (simp add: readDist_nonneg split: option.split)
  moreover have "readDist (useFrame SeptagonCase_tray 1
         \<lparr> isOpen = False, meshRef = Some \<lparr> pos_x = - (7 / 2), pos_y = 3 / 4, pos_z = 0 \<rparr> \<rparr>)
       = Some \<bar>- (17 / 2)\<bar>"
  proof -
    have "sqrt (49 / 4) = 7 / 2"
      by (rule real_sqrt_unique) (simp_all add: power2_eq_square)
    then have "readDist \<lparr> isOpen = False, meshRef = Some \<lparr> pos_x = - (7 / 2), pos_y = 3 / 4, pos_z = 0 \<rparr> \<rparr>
        = Some (7 / 2)"
      by (simp add: readDist_def currentDist_def)
    then show ?thesis
      by (simp add: readDist_useFrame targetDist_def SeptagonCase_closedDist newDist_def lerp_def)
  qed
  ultimately show ?thesis
    using run_on_ray [of p evs] meshRef_useFrame [of p delta st] readDist_useFrame [of p delta st]
    by (intro conjI)
qed

section \<open>Face placement\<close>

text \<open>
  C3, the claim as stated, fails. Claim: for a face index outside
  \<open>[0, segmentCount)\<close> the face angle fails with a range error and never wraps.
  With seven segments and index 7 the \<^verbatim>\<open>Tray\<close> component returns a mesh, not a
  range error; its face angle is \<open>15/7 * pi\<close> and its position is that of index 0.
\<close>

theorem C3_counterexample:
  "Tray \<lparr> index = 7, radius = 3, height = 1.5, segments = 7, innerRadius = 1.2 \<rparr> \<noteq> Inl RangeError
   \<and> faceAngle \<lparr> index = 7, radius = 3, height = 1.5, segments = 7, innerRadius = 1.2 \<rparr> = 15 / 7 * pi
   \<and> position (Tray_mesh \<lparr> index = 7, radius = 3, height = 1.5, segments = 7, innerRadius = 1.2 \<rparr>)
       = position (Tray_mesh \<lparr> index = 0, radius = 3, height = 1.5, segments = 7, innerRadius = 1.2 \<rparr>)"
proof -
  have "cos (15 / 7 * pi) = cos (pi / 7 + 2 * pi)" "sin (15 / 7 * pi) = sin (pi / 7 + 2 * pi)"
    by (simp_all add: algebra_simps)
  then have "cos (15 / 7 * pi) = cos (pi / 7)" "sin (15 / 7 * pi) = sin (pi / 7)"
    by (simp_all only: cos_periodic sin_periodic)
  then show ?thesis
    by (simp add: Tray_def Tray_mesh_def faceAngle_def angleStep_def closedDist_def
        startRadius_def length_tray_def)
qed

text \<open>
  C3, as amended: the face angle has no range check. For a non-zero segment
  count and every index, in range or not, \<^verbatim>\<open>Tray\<close> and \<^verbatim>\<open>SideBox\<close> return a mesh
  rotated by minus \<open>(index + 0.5) * (2 * pi / segments)\<close>, not clamped; the
  position wraps silently, \<open>index + segments\<close> giving the position of \<open>index\<close>.
\<close>

theorem C3_no_range_check:
  assumes "segments p \<noteq> 0" and "segments q \<noteq> 0"
  shows "Tray p = Inr (Tray_mesh p)
         \<and> rotation_y (Tray_mesh p) = - ((index p + 0.5) * (2 * pi / segments p))
         \<and> position (Tray_mesh (p \<lparr> index := index p + segments p \<rparr>)) = position (Tray_mesh p)
         \<and> SideBox q = Inr (SideBox_mesh q)
         \<and> rotation_y (SideBox_mesh q) = - ((index q + 0.5) * (2 * pi / segments q))
         \<and> position (SideBox_mesh (q \<lparr> index := index q + segments q \<rparr>)) = position (SideBox_mesh q)"
proof -
  have "position (Tray_mesh (p \<lparr> index := index p + segments p \<rparr>)) = position (Tray_mesh p)"
    by (simp add: Tray_mesh_def faceAngle_shift [OF assms(1)] closedDist_def startRadius_def
        length_tray_def)
  moreover have "position (SideBox_mesh (q \<lparr> index := index q + segments q \<rparr>)) = position (SideBox_mesh q)"
    by (simp add: SideBox_mesh_def SideBox_faceAngle_shift [OF assms(2)] SideBox_dist_def)
  ultimately show ?thesis
    by (simp add: Tray_def SideBox_def Tray_mesh_def SideBox_mesh_def faceAngle_def angleStep_def
        SideBox_faceAngle_def SideBox_angleStep_def)
qed

text \<open>
  C3, witness: the tray with index 7 and the side box with index \<open>-1\<close>, both
  with seven segments.
\<close>

theorem C3_no_range_check_witness:
  "segments (SeptagonCase_tray \<lparr> index := 7 \<rparr>) \<noteq> 0
   \<and> segments (SeptagonCase_sideBox \<lparr> index := -1 \<rparr>) \<noteq> 0
   \<and> Tray (SeptagonCase_tray \<lparr> index := 7 \<rparr>) = Inr (Tray_mesh (SeptagonCase_tray \<lparr> index := 7 \<rparr>))
   \<and> rotation_y (Tray_mesh (SeptagonCase_tray \<lparr> index := 7 \<rparr>)) = - (15 / 7 * pi)
   \<and> position (Tray_mesh (SeptagonCase_tray \<lparr> index := 14 \<rparr>))
       = position (Tray_mesh (SeptagonCase_tray \<lparr> index := 7 \<rparr>))
   \<and> SideBox (SeptagonCase_sideBox \<lparr> index := -1 \<rparr>)
       = Inr (SideBox_mesh (SeptagonCase_sideBox \<lparr> index := -1 \<rparr>))
   \<and> rotation_y (SideBox_mesh (SeptagonCase_sideBox \<lparr> index := -1 \<rparr>)) = pi / 7
   \<and> position (SideBox_mesh (SeptagonCase_sideBox \<lparr> index := 6 \<rparr>))
       = position (SideBox_mesh (SeptagonCase_sideBox \<lparr> index := -1 \<rparr>))"
  using C3_no_range_check [of "SeptagonCase_tray \<lparr> index := 7 \<rparr>" "SeptagonCase_sideBox \<lparr> index := -1 \<rparr>"]
  by (simp add: SeptagonCase_tray_def SeptagonCase_sideBox_def)

text \<open>
  C4, the claim as stated, fails. Claim: a segment count below 3 raises a
  configuration error at setup. With the dimensions of \<^verbatim>\<open>SeptagonCase\<close> and two
  segments, \<^verbatim>\<open>Tray\<close> returns the mesh of a degenerate polygon: angle step \<open>pi\<close>,
  position \<open>(0, 0.75, -2)\<close>, box \<open>1.4 \<times> 0.9 \<times> 2.25\<close>.
\<close>

theorem C4_counterexample:
  "Tray \<lparr> index = 3, radius = 3, height = 1.5, segments = 2, innerRadius = 1.2 \<rparr> \<noteq> Inl ConfigurationError
   \<and> Tray \<lparr> index = 3, radius = 3, height = 1.5, segments = 2, innerRadius = 1.2 \<rparr>
       = Inr \<lparr> rotation_y = - (7 / 2 * pi),
               position = \<lparr> pos_x = 0, pos_y = 3 / 4, pos_z = - 2 \<rparr>,
               boxGeometry = (7 / 5, 9 / 10, 9 / 4) \<rparr>"
proof -
  have "pi * 7 / 2 = 3 / 2 * pi + 2 * pi"
    by simp
  then have "cos (pi * 7 / 2) = 0" "sin (pi * 7 / 2) = - 1"
    by (simp_all only: cos_periodic sin_periodic cos_3over2_pi sin_3over2_pi)
  then show ?thesis
    by (simp add: Tray_def Tray_mesh_def faceAngle_def angleStep_def closedDist_def
        startRadius_def length_tray_def trayHeight_def width_def chord_def)
qed

text \<open>
  C4, as amended: the code validates nothing. \<^verbatim>\<open>Tray\<close> and \<^verbatim>\<open>SideBox\<close> return
  a mesh for every props value; with two segments the angle step is \<open>pi\<close> and
  the tray is \<open>2 * innerRadius - 0.15\<close> wide. The one configuration the code
  builds, \<^verbatim>\<open>SeptagonCase\<close>, is a constant with seven segments,
  \<open>0 < innerRadius < radius\<close> and a positive height.
\<close>

theorem C4_no_validation:
  "Tray p = Inr (Tray_mesh p)
   \<and> SideBox q = Inr (SideBox_mesh q)
   \<and> angleStep (p \<lparr> segments := 2 \<rparr>) = pi
   \<and> width (p \<lparr> segments := 2 \<rparr>) = 2 * innerRadius p - 0.15
   \<and> segments SeptagonCase_tray = 7 \<and> segments SeptagonCase_sideBox = 7
   \<and> 3 \<le> segments SeptagonCase_tray
   \<and> 0 < innerRadius SeptagonCase_tray
   \<and> innerRadius SeptagonCase_tray < radius SeptagonCase_tray
   \<and> 0 < height SeptagonCase_tray"
  by (simp add: Tray_def SideBox_def angleStep_def width_def chord_def SeptagonCase_tray_def
      SeptagonCase_sideBox_def)

text \<open>
  C5: for a segment count of at least 3 and an index in \<open>[0, segments)\<close>, the
  face angle of \<^verbatim>\<open>Tray\<close> and of \<^verbatim>\<open>SideBox\<close> is
  \<open>(index + 0.5) * (2 * pi / segments)\<close>; with seven segments and index 3 it is
  \<open>pi\<close>.
\<close>

theorem C5_faceCenterAngle:
  "(3 \<le> segments p \<and> 0 \<le> index p \<and> index p < segments p \<longrightarrow>
      faceAngle p = (index p + 0.5) * (2 * pi / segments p))
   \<and> (3 \<le> segments q \<and> 0 \<le> index q \<and> index q < segments q \<longrightarrow>
      SideBox_faceAngle q = (index q + 0.5) * (2 * pi / segments q))
   \<and> faceAngle (p \<lparr> segments := 7, index := 3 \<rparr>) = pi
   \<and> SideBox_faceAngle (q \<lparr> segments := 7, index := 3 \<rparr>) = pi"
  by (simp add: faceAngle_def angleStep_def SideBox_faceAngle_def SideBox_angleStep_def)

text \<open>
  C5, witness: the tray (index 3) and the side box (index 0) of
  \<^verbatim>\<open>SeptagonCase\<close>.
\<close>

theorem C5_faceCenterAngle_witness:
  "3 \<le> segments SeptagonCase_tray \<and> 0 \<le> index SeptagonCase_tray
   \<and> index SeptagonCase_tray < segments SeptagonCase_tray
   \<and> faceAngle SeptagonCase_tray = (3 + 0.5) * (2 * pi / 7)
   \<and> 3 \<le> segments SeptagonCase_sideBox \<and> 0 \<le> index SeptagonCase_sideBox
   \<and> index SeptagonCase_sideBox < segments SeptagonCase_sideBox
   \<and> SideBox_faceAngle SeptagonCase_sideBox = (0 + 0.5) * (2 * pi / 7)"
  using C5_faceCenterAngle [of SeptagonCase_tray SeptagonCase_sideBox]
  by (simp add: SeptagonCase_tray_def SeptagonCase_sideBox_def)

text \<open>
  C6, the claim as stated, fails in its number. Claim: the chord at radius 1.2
  of a heptagon is about 1.0419. The chord computed by the code is below
  1.0414, so it is not 1.0419 to the four decimals given (it is further than
  0.00005 away).
\<close>

theorem C6_counterexample:
  "chord SeptagonCase_tray < 10414 / 10000
   \<and> \<not> \<bar>chord SeptagonCase_tray - 10419 / 10000\<bar> \<le> 5 / 100000"
  using sin_pi7_bounds(2) by (simp add: chord_SeptagonCase abs_le_iff)

text \<open>
  C6, as amended: for a positive inner radius and at least three segments the
  chord is \<open>2 * innerRadius * sin (pi / segments)\<close>, and the tray's width is the
  chord less a clearance of 0.15; at radius 1.2 with seven segments the chord
  lies between 1.0413 and 1.0414.
\<close>

theorem C6_chord:
  "(0 < innerRadius p \<and> 3 \<le> segments p \<longrightarrow>
      chord p = 2 * innerRadius p * sin (pi / segments p))
   \<and> width p = chord p - 0.15
   \<and> chord (p \<lparr> innerRadius := 1.2, segments := 7 \<rparr>) = chord SeptagonCase_tray
   \<and> 10413 / 10000 < chord SeptagonCase_tray
   \<and> chord SeptagonCase_tray < 10414 / 10000"
  using sin_pi7_bounds
  by (simp add: chord_SeptagonCase width_def) (simp add: chord_def angleStep_def SeptagonCase_tray_def)

text \<open>
  C6, witness: the tray of \<^verbatim>\<open>SeptagonCase\<close>, inner radius 1.2 and seven
  segments.
\<close>

theorem C6_chord_witness:
  "0 < innerRadius SeptagonCase_tray \<and> 3 \<le> segments SeptagonCase_tray
   \<and> chord SeptagonCase_tray = 2 * (12 / 10) * sin (pi / 7)"
  using C6_chord [of SeptagonCase_tray] by (simp add: SeptagonCase_tray_def)

section \<open>The clock\<close>

text \<open>
  C8: for every local time (hour below 24, minute and second below 60, day of
  the month from 1 to 31) the clock shows three strings. The time string has
  eight characters, colons at positions 2 and 5, and at the other positions the
  ASCII digits (code 48 plus the value) of the tens and units of hour, minute
  and second, so it is zero-padded. The day string is the full English name of
  the weekday. The date string is the three-letter month, a space and the day
  of the month in one or two digits without padding: five or six characters,
  so no year. A Saturday at 03:05:09 gives \<open>Saturday\<close> and \<open>03:05:09\<close>.
\<close>

theorem C8_clock_format:
  assumes "hours t < 24" and "minutes t < 60" and "seconds t < 60"
    and "1 \<le> mday t" and "mday t \<le> 31"
  shows "\<exists>dn ts ds. ClockContent t = (dn, ts, ds)
     \<and> length ts = 8 \<and> ts ! 2 = CHR '':'' \<and> ts ! 5 = CHR '':''
     \<and> of_char (ts ! 0) = (48 + hours t div 10 :: nat)
     \<and> of_char (ts ! 1) = (48 + hours t mod 10 :: nat)
     \<and> of_char (ts ! 3) = (48 + minutes t div 10 :: nat)
     \<and> of_char (ts ! 4) = (48 + minutes t mod 10 :: nat)
     \<and> of_char (ts ! 6) = (48 + seconds t div 10 :: nat)
     \<and> of_char (ts ! 7) = (48 + seconds t mod 10 :: nat)
     \<and> dn = (case wday t of Sunday \<Rightarrow> ''Sunday'' | Monday \<Rightarrow> ''Monday'' | Tuesday \<Rightarrow> ''Tuesday''
              | Wednesday \<Rightarrow> ''Wednesday'' | Thursday \<Rightarrow> ''Thursday'' | Friday \<Rightarrow> ''Friday''
              | Saturday \<Rightarrow> ''Saturday'')
     \<and> take 3 ds = (case mon t of January \<Rightarrow> ''Jan'' | February \<Rightarrow> ''Feb'' | March \<Rightarrow> ''Mar''
              | April \<Rightarrow> ''Apr'' | May \<Rightarrow> ''May'' | June \<Rightarrow> ''Jun'' | July \<Rightarrow> ''Jul''
              | August \<Rightarrow> ''Aug'' | September \<Rightarrow> ''Sep'' | October \<Rightarrow> ''Oct''
              | November \<Rightarrow> ''Nov'' | December \<Rightarrow> ''Dec'')
     \<and> ds ! 3 = CHR '' ''
     \<and> length ds = (if mday t < 10 then 5 else 6)
     \<and> of_char (ds ! 4) = (48 + (if mday t < 10 then mday t else mday t div 10) :: nat)
     \<and> (10 \<le> mday t \<longrightarrow> of_char (ds ! 5) = (48 + mday t mod 10 :: nat))
     \<and> ClockContent (t \<lparr> wday := Saturday, hours := 3, minutes := 5, seconds := 9 \<rparr>)
         = (''Saturday'', ''03:05:09'', ds)"
proof -
  have day: "dayString t = (case wday t of Sunday \<Rightarrow> ''Sunday'' | Monday \<Rightarrow> ''Monday'' | Tuesday \<Rightarrow> ''Tuesday''
              | Wednesday \<Rightarrow> ''Wednesday'' | Thursday \<Rightarrow> ''Thursday'' | Friday \<Rightarrow> ''Friday''
              | Saturday \<Rightarrow> ''Saturday'')"
    by (cases "wday t") (simp_all add: dayString_def)
  have month: "month_short (mon t) = (case mon t of January \<Rightarrow> ''Jan'' | February \<Rightarrow> ''Feb'' | March \<Rightarrow> ''Mar''
              | April \<Rightarrow> ''Apr'' | May \<Rightarrow> ''May'' | June \<Rightarrow> ''Jun'' | July \<Rightarrow> ''Jul''
              | August \<Rightarrow> ''Aug'' | September \<Rightarrow> ''Sep'' | October \<Rightarrow> ''Oct''
              | November \<Rightarrow> ''Nov'' | December \<Rightarrow> ''Dec'')"
    by (cases "mon t") simp_all
  have sat: "ClockContent (t \<lparr> wday := Saturday, hours := 3, minutes := 5, seconds := 9 \<rparr>)
      = (''Saturday'', ''03:05:09'', dateString t)"
    by (simp add: ClockContent_def dayString_def timeString_def dateString_def two_digit_def digit_def)
  have cc: "ClockContent t = (dayString t, timeString t, dateString t)"
    by (simp add: ClockContent_def)
  from timeString_shape [OF assms(1-3)] dateString_shape [OF assms(4,5)] day sat
  show ?thesis
    unfolding cc month [symmetric] by blast
qed

text \<open>
  C8, witness: Saturday 7 November, 03:05:09; and Sunday 31 December,
  23:59:00.
\<close>

theorem C8_clock_format_witness:
  "hours \<lparr> wday = Saturday, mon = November, mday = 7, hours = 3, minutes = 5, seconds = 9 \<rparr> < 24
   \<and> minutes \<lparr> wday = Saturday, mon = November, mday = 7, hours = 3, minutes = 5, seconds = 9 \<rparr> < 60
   \<and> seconds \<lparr> wday = Saturday, mon = November, mday = 7, hours = 3, minutes = 5, seconds = 9 \<rparr> < 60
   \<and> 1 \<le> mday \<lparr> wday = Saturday, mon = November, mday = 7, hours = 3, minutes = 5, seconds = 9 \<rparr>
   \<and> mday \<lparr> wday = Saturday, mon = November, mday = 7, hours = 3, minutes = 5, seconds = 9 \<rparr> \<le> 31
   \<and> ClockContent \<lparr> wday = Saturday, mon = November, mday = 7, hours = 3, minutes = 5, seconds = 9 \<rparr>
       = (''Saturday'', ''03:05:09'', ''Nov 7'')
   \<and> ClockContent \<lparr> wday = Sunday, mon = December, mday = 31, hours = 23, minutes = 59, seconds = 0 \<rparr>
       = (''Sunday'', ''23:59:00'', ''Dec 31'')"
  using C8_clock_format [of "\<lparr> wday = Saturday, mon = November, mday = 7, hours = 3, minutes = 5, seconds = 9 \<rparr>"]
  by (simp add: ClockContent_def dayString_def timeString_def dateString_def two_digit_def digit_def
      numeric.simps)

end
